theory Spec2Isabelle
  imports Main
begin

section \<open>JavaScript values and built-ins used by \<^verbatim>\<open>src/utils.ts\<close>\<close>

text \<open>
  A JavaScript string is a \<^typ>\<open>string\<close>. The functions below only compare code
  units for equality and concatenate, so nothing depends on the width of a code unit.
\<close>

text \<open>
  A template literal \<^verbatim>\<open>`${x}`\<close> converts \<^verbatim>\<open>x\<close> with ToString; for a value that
  is a string or \<^verbatim>\<open>undefined\<close> (here \<^term>\<open>None\<close>) that is the string itself or the
  text \<^verbatim>\<open>undefined\<close>.
\<close>

definition toString :: "string option \<Rightarrow> string" where
  "toString v = (case v of None \<Rightarrow> ''undefined'' | Some s \<Rightarrow> s)"

text \<open>Reading \<^verbatim>\<open>parts[i]\<close> of an array: \<^verbatim>\<open>undefined\<close> out of range.\<close>

definition at_index :: "'a list \<Rightarrow> nat \<Rightarrow> 'a option" where
  "at_index xs i = (if i < length xs then Some (xs ! i) else None)"

text \<open>
  \<^verbatim>\<open>s.split(sep)\<close> for a one-character separator: the pieces between the separators,
  empty pieces included; the empty string gives one empty piece.
\<close>

fun split :: "char \<Rightarrow> string \<Rightarrow> string list" where
  "split sep [] = [[]]"
| "split sep (c # cs) =
     (if c = sep then [] # split sep cs
      else (case split sep cs of
              [] \<Rightarrow> [[c]]
            | p # ps \<Rightarrow> (c # p) # ps))"

text \<open>\<^verbatim>\<open>s.startsWith(pat)\<close> and \<^verbatim>\<open>s.endsWith(pat)\<close>.\<close>

definition startsWith :: "string \<Rightarrow> string \<Rightarrow> bool" where
  "startsWith s pat = (take (length pat) s = pat)"

definition endsWith :: "string \<Rightarrow> string \<Rightarrow> bool" where
  "endsWith s pat =
     (length pat \<le> length s \<and> drop (length s - length pat) s = pat)"

text \<open>
  \<^verbatim>\<open>s.replace(pat, rep)\<close> with a string pattern: only the first (leftmost)
  occurrence of \<^verbatim>\<open>pat\<close> is replaced; a string without the pattern is returned as
  it is. (The replacement used in the source is the empty string, so the \<^verbatim>\<open>$\<close>
  patterns of a replacement play no role.)
\<close>

fun replace :: "string \<Rightarrow> string \<Rightarrow> string \<Rightarrow> string" where
  "replace [] pat rep = (if pat = [] then rep else [])"
| "replace (c # cs) pat rep =
     (if startsWith (c # cs) pat then rep @ drop (length pat) (c # cs)
      else c # replace cs pat rep)"

text \<open>\<^verbatim>\<open>Object.values(o)\<close> and \<^verbatim>\<open>xs.includes(x)\<close> on an object literal kept as
  its list of properties.\<close>

definition Object_values :: "(string \<times> 'a) list \<Rightarrow> 'a list" where
  "Object_values obj = map snd obj"

definition Array_includes :: "'a list \<Rightarrow> 'a \<Rightarrow> bool" where
  "Array_includes xs x = (x \<in> set xs)"

text \<open>A thrown \<^verbatim>\<open>new Error(message)\<close>.\<close>

datatype error = Error string

section \<open>Binary locator\<close>

text \<open>
  \<^verbatim>\<open>
  function getMacExecutableName(appName: string) {
    if (appName.endsWith(' Helper')) {
      return appName.replace(' Helper', '');
    }
    return appName;
  }
  \<close>
\<close>

definition getMacExecutableName :: "string \<Rightarrow> string" where
  "getMacExecutableName appName =
     (if endsWith appName '' Helper'' then replace appName '' Helper'' ''''
      else appName)"

text \<open>
  \<^verbatim>\<open>getBinaryPath\<close> reads \<^verbatim>\<open>platform\<close> and \<^verbatim>\<open>arch\<close> from the global
  \<^verbatim>\<open>process\<close>; here they are the first two arguments. The object literals
  \<^verbatim>\<open>SupportedPlatform\<close> and \<^verbatim>\<open>pathMap\<close> are kept as property lists, and
  \<^verbatim>\<open>pathMap[platform]\<close> is a lookup in that list (the guard before it leaves only the
  three own keys, so no inherited property can be read).
\<close>

definition SupportedPlatform :: "(string \<times> string) list" where
  "SupportedPlatform =
     [(''darwin'', ''darwin''), (''linux'', ''linux''), (''win32'', ''win32'')]"

definition pathMap :: "string \<Rightarrow> string \<Rightarrow> (string \<times> string) list" where
  "pathMap arch appName =
     [(''darwin'',
         (if arch = ''arm64'' then ''mac-arm64'' else ''mac'') @ ''/'' @ appName
           @ ''.app/Contents/MacOS/'' @ getMacExecutableName appName),
      (''linux'', ''linux-unpacked/'' @ appName),
      (''win32'', ''win-unpacked/'' @ appName @ ''.exe'')]"

definition getBinaryPath :: "string \<Rightarrow> string \<Rightarrow> string \<Rightarrow> string \<Rightarrow> error + string" where
  "getBinaryPath platform arch distPath appName =
     (if \<not> Array_includes (Object_values SupportedPlatform) platform
      then Inl (Error (''Unsupported platform: '' @ platform))
      else
        let electronPath = map_of (pathMap arch appName) platform
        in Inr (distPath @ ''/'' @ toString electronPath))"

section \<open>Plain objects used as dictionaries\<close>

text \<open>
  \<^verbatim>\<open>electronChromiumVersionMap\<close> is a plain object \<^verbatim>\<open>{}\<close> of type
  \<^verbatim>\<open>{ [k: string]: string }\<close>, and \<^verbatim>\<open>fullVersions\<close> is the plain object exported by
  \<^verbatim>\<open>electron-to-chromium\<close>. A plain object is kept as the map of its own properties
  (all of them strings here); its prototype is \<^verbatim>\<open>Object.prototype\<close>, whose property
  names are listed below. Reading \<^verbatim>\<open>obj[key]\<close> gives the own property if there is
  one, else the property inherited from the prototype if the key names one, else
  \<^verbatim>\<open>undefined\<close>. Writing \<^verbatim>\<open>obj[key] = v\<close> creates or updates an own property, but
  for the key \<^verbatim>\<open>__proto__\<close> (not an own property) it calls the prototype's setter,
  which ignores a string.
\<close>

datatype jsvalue = Undefined | Str string | Inherited string

definition Object_prototype :: "string list" where
  "Object_prototype =
     [''constructor'', ''__defineGetter__'', ''__defineSetter__'', ''hasOwnProperty'',
      ''__lookupGetter__'', ''__lookupSetter__'', ''isPrototypeOf'',
      ''propertyIsEnumerable'', ''toString'', ''valueOf'', ''__proto__'',
      ''toLocaleString'']"

definition get_property :: "(string \<rightharpoonup> string) \<Rightarrow> string \<Rightarrow> jsvalue" where
  "get_property obj key =
     (case obj key of
        Some v \<Rightarrow> Str v
      | None \<Rightarrow> if key \<in> set Object_prototype then Inherited key else Undefined)"

definition set_property :: "(string \<rightharpoonup> string) \<Rightarrow> string \<Rightarrow> string \<Rightarrow> (string \<rightharpoonup> string)" where
  "set_property obj key v =
     (if key = ''__proto__'' \<and> obj key = None then obj else obj(key \<mapsto> v))"

text \<open>\<^verbatim>\<open>a || b\<close> for a value \<^verbatim>\<open>a\<close> that is a string or \<^verbatim>\<open>undefined\<close>: \<^verbatim>\<open>a\<close> when it
  is a non-empty string, else \<^verbatim>\<open>b\<close>.\<close>

definition or_else :: "string option \<Rightarrow> string \<Rightarrow> string" where
  "or_else a b = (case a of None \<Rightarrow> b | Some s \<Rightarrow> if s = [] then b else s)"

text \<open>
  \<^verbatim>\<open>xs.sort(cmp)\<close>: a stable sort by a comparator that returns a number (negative:
  first argument first) or throws; the first throw ends the sort. Written as the
  insertion of each element into the sorted rest, an element going in front of the
  elements it does not compare greater than. Which pairs an engine compares, and the
  order it gives for a comparator that is not consistent, are left open by the
  language; the properties proved below use only that a sort which returns gives a
  list with the elements of its input.
\<close>

fun Array_insert :: "('a \<Rightarrow> 'a \<Rightarrow> 'e + int) \<Rightarrow> 'a \<Rightarrow> 'a list \<Rightarrow> 'e + 'a list" where
  "Array_insert cmp x [] = Inr [x]"
| "Array_insert cmp x (y # ys) =
     (case cmp x y of
        Inl e \<Rightarrow> Inl e
      | Inr c \<Rightarrow>
          if c \<le> 0 then Inr (x # y # ys)
          else (case Array_insert cmp x ys of
                  Inl e \<Rightarrow> Inl e
                | Inr zs \<Rightarrow> Inr (y # zs)))"

fun Array_sort :: "('a \<Rightarrow> 'a \<Rightarrow> 'e + int) \<Rightarrow> 'a list \<Rightarrow> 'e + 'a list" where
  "Array_sort cmp [] = Inr []"
| "Array_sort cmp (x # xs) =
     (case Array_sort cmp xs of
        Inl e \<Rightarrow> Inl e
      | Inr ys \<Rightarrow> Array_insert cmp x ys)"

section \<open>The host: logger, network, file system, process\<close>

text \<open>\<^verbatim>\<open>type ElectronRelease = { chrome: string; version: string }\<close>\<close>

record ElectronRelease =
  release_chrome :: string
  release_version :: string

text \<open>The object \<^verbatim>\<open>conf\<close> that \<^verbatim>\<open>downloadAssets\<close> hands to \<^verbatim>\<open>downloadArtifact\<close>.\<close>

record conf =
  conf_version :: string
  artifactName :: string
  force :: bool
  cacheRoot :: "string option"
  conf_platform :: "string option"
  conf_arch :: "string option"

text \<open>
  What the code does to the outside is recorded as a list of events, in order: the
  lines it logs, and its calls of \<^verbatim>\<open>fetch\<close>, \<^verbatim>\<open>body.json\<close>, \<^verbatim>\<open>downloadArtifact\<close>,
  \<^verbatim>\<open>extractZip\<close> and \<^verbatim>\<open>fs.chmod\<close> with their arguments and outcome (\<^term>\<open>None\<close>: the
  call returned; \<^term>\<open>Some e\<close>: it threw \<^term>\<open>e\<close>). \<^verbatim>\<open>log.debug\<close> of this file writes
  to two sinks (\<^verbatim>\<open>d\<close> and \<^verbatim>\<open>l.debug\<close>); it is one event.
\<close>

datatype level = Debug | Warn | Err

datatype 'e arg = Text string | Config conf | Thrown 'e

datatype 'e event =
    Log level "'e arg list"
  | Fetch string "'e option"
  | Json "'e option"
  | DownloadArtifact conf "'e + string"
  | ExtractZip string string "'e option"
  | Chmod string nat "'e option"

text \<open>
  The host is a parameter: the state \<^typ>\<open>'w\<close> of the outside world (network, disk,
  environment), what each external call returns in a state and the state it leaves,
  and the constants the file imports. \<^typ>\<open>'e\<close> is the type of thrown values,
  \<^typ>\<open>'b\<close> the type of a response body. \<^verbatim>\<open>body.json()\<close> is taken to give an
  \<^verbatim>\<open>ElectronRelease[]\<close> when it returns, as the source's type assertion says.
  \<^verbatim>\<open>dirname\<close> is \<^verbatim>\<open>__dirname\<close>; \<^verbatim>\<open>path_join\<close> is \<^verbatim>\<open>path.join\<close>.
\<close>

record ('w, 'e, 'b) host =
  process_platform :: string
  process_env :: "'w \<Rightarrow> string \<Rightarrow> string option"
  dirname :: string
  path_join :: "string list \<Rightarrow> string"
  fetch :: "string \<Rightarrow> 'w \<Rightarrow> ('e + 'b) \<times> 'w"
  json :: "'b \<Rightarrow> 'w \<Rightarrow> ('e + ElectronRelease list) \<times> 'w"
  compareVersions :: "string \<Rightarrow> string \<Rightarrow> 'e + int"
  fullVersions :: "string \<Rightarrow> string option"
  downloadArtifact :: "conf \<Rightarrow> 'w \<Rightarrow> ('e + string) \<times> 'w"
  extractZip :: "string \<Rightarrow> string \<Rightarrow> 'w \<Rightarrow> 'e option \<times> 'w"
  chmod :: "string \<Rightarrow> nat \<Rightarrow> 'w \<Rightarrow> 'e option \<times> 'w"

text \<open>
  A computation takes the state of the world and gives its outcome (\<^term>\<open>Inl e\<close>: it
  threw \<^term>\<open>e\<close>; \<^term>\<open>Inr a\<close>: it returned \<^term>\<open>a\<close>), the events it caused and the
  new state. \<open>bind_io\<close> is sequencing (\<^verbatim>\<open>await\<close> or \<^verbatim>\<open>;\<close>), \<open>try_catch\<close> is
  \<^verbatim>\<open>try { ... } catch (err) { ... }\<close>.
\<close>

type_synonym ('w, 'e, 'a) io = "'w \<Rightarrow> ('e + 'a) \<times> 'e event list \<times> 'w"

definition return_io :: "'a \<Rightarrow> ('w, 'e, 'a) io" where
  "return_io a w = (Inr a, [], w)"

definition throw_io :: "'e \<Rightarrow> ('w, 'e, 'a) io" where
  "throw_io e w = (Inl e, [], w)"

definition bind_io :: "('w, 'e, 'a) io \<Rightarrow> ('a \<Rightarrow> ('w, 'e, 'b) io) \<Rightarrow> ('w, 'e, 'b) io" where
  "bind_io m f w =
     (case m w of
        (Inl e, t, w') \<Rightarrow> (Inl e, t, w')
      | (Inr a, t, w') \<Rightarrow> (case f a w' of (r, t', w'') \<Rightarrow> (r, t @ t', w'')))"

definition try_catch :: "('w, 'e, 'a) io \<Rightarrow> ('e \<Rightarrow> ('w, 'e, 'a) io) \<Rightarrow> ('w, 'e, 'a) io" where
  "try_catch m h w =
     (case m w of
        (Inr a, t, w') \<Rightarrow> (Inr a, t, w')
      | (Inl e, t, w') \<Rightarrow> (case h e w' of (r, t', w'') \<Rightarrow> (r, t @ t', w'')))"

definition log_debug :: "'e arg list \<Rightarrow> ('w, 'e, unit) io" where
  "log_debug args w = (Inr (), [Log Debug args], w)"

definition log_warn :: "'e arg list \<Rightarrow> ('w, 'e, unit) io" where
  "log_warn args w = (Inr (), [Log Warn args], w)"

definition log_error :: "'e arg list \<Rightarrow> ('w, 'e, unit) io" where
  "log_error args w = (Inr (), [Log Err args], w)"

definition call_fetch :: "('w, 'e, 'b) host \<Rightarrow> string \<Rightarrow> ('w, 'e, 'b) io" where
  "call_fetch host url w =
     (case fetch host url w of
        (Inl e, w') \<Rightarrow> (Inl e, [Fetch url (Some e)], w')
      | (Inr body, w') \<Rightarrow> (Inr body, [Fetch url None], w'))"

definition call_json :: "('w, 'e, 'b) host \<Rightarrow> 'b \<Rightarrow> ('w, 'e, ElectronRelease list) io" where
  "call_json host body w =
     (case json host body w of
        (Inl e, w') \<Rightarrow> (Inl e, [Json (Some e)], w')
      | (Inr rs, w') \<Rightarrow> (Inr rs, [Json None], w'))"

definition call_downloadArtifact :: "('w, 'e, 'b) host \<Rightarrow> conf \<Rightarrow> ('w, 'e, string) io" where
  "call_downloadArtifact host c w =
     (case downloadArtifact host c w of (r, w') \<Rightarrow> (r, [DownloadArtifact c r], w'))"

definition call_extractZip :: "('w, 'e, 'b) host \<Rightarrow> string \<Rightarrow> string \<Rightarrow> ('w, 'e, unit) io" where
  "call_extractZip host zipPath dir w =
     (case extractZip host zipPath dir w of
        (Some e, w') \<Rightarrow> (Inl e, [ExtractZip zipPath dir (Some e)], w')
      | (None, w') \<Rightarrow> (Inr (), [ExtractZip zipPath dir None], w'))"

definition call_chmod :: "('w, 'e, 'b) host \<Rightarrow> string \<Rightarrow> nat \<Rightarrow> ('w, 'e, unit) io" where
  "call_chmod host file mode w =
     (case chmod host file mode w of
        (Some e, w') \<Rightarrow> (Inl e, [Chmod file mode (Some e)], w')
      | (None, w') \<Rightarrow> (Inr (), [Chmod file mode None], w'))"

definition of_result :: "'e + 'a \<Rightarrow> ('w, 'e, 'a) io" where
  "of_result r w = (r, [], w)"

section \<open>Driver provisioner\<close>

text \<open>
  \<^verbatim>\<open>getChromiumVersion(electronVersion?: string)\<close>. The argument may be left out
  (\<^term>\<open>None\<close>); as a property key it is then the text \<^verbatim>\<open>undefined\<close>.
\<close>

definition buildVersionMap :: "ElectronRelease list \<Rightarrow> (string \<rightharpoonup> string)" where
  "buildVersionMap releases =
     fold (\<lambda>r electronChromiumVersionMap.
             set_property electronChromiumVersionMap (release_version r) (release_chrome r))
       releases Map.empty"

definition getChromiumVersion ::
  "('w, 'e, 'b) host \<Rightarrow> string option \<Rightarrow> ('w, 'e, jsvalue) io" where
  "getChromiumVersion host electronVersion =
     bind_io (log_debug [Text ''Updating Electron - Chromium version map...'']) (\<lambda>_.
     try_catch
       (bind_io (call_fetch host ''https://electronjs.org/headers/index.json'') (\<lambda>body.
        bind_io (call_json host body) (\<lambda>allElectronVersions.
        bind_io (of_result (Array_sort
                   (\<lambda>r s. compareVersions host (release_version r) (release_version s))
                   allElectronVersions)) (\<lambda>sortedVersions.
        return_io (get_property (buildVersionMap sortedVersions) (toString electronVersion))))))
       (\<lambda>e.
        bind_io (log_debug [Text ''Map update failed.'']) (\<lambda>_.
        return_io (get_property (fullVersions host) (toString electronVersion)))))"

definition downloadAssets :: "('w, 'e, 'b) host \<Rightarrow> string \<Rightarrow> ('w, 'e, string) io" where
  "downloadAssets host version w =
     (let c = \<lparr> conf_version = version,
                artifactName = ''chromedriver'',
                force = (process_env host w ''force_no_cache'' = Some ''true''),
                cacheRoot = process_env host w ''electron_config_cache'',
                conf_platform = process_env host w ''npm_config_platform'',
                conf_arch = process_env host w ''npm_config_arch'' \<rparr>
      in bind_io (log_debug [Text ''chromedriver download config: '', Config c]) (\<lambda>_.
         call_downloadArtifact host c) w)"

text \<open>The \<^verbatim>\<open>try\<close> block of \<^verbatim>\<open>attemptAssetsDownload\<close>: one provisioning attempt.
  \<^verbatim>\<open>0o755\<close> is 493.\<close>

definition attempt :: "('w, 'e, 'b) host \<Rightarrow> string \<Rightarrow> ('w, 'e, unit) io" where
  "attempt host version =
     (let targetFolder = path_join host [dirname host, ''..'', ''bin'']
      in bind_io (downloadAssets host version) (\<lambda>zipPath.
         bind_io (log_debug [Text ''assets downloaded to '', Text zipPath]) (\<lambda>_.
         bind_io (call_extractZip host zipPath targetFolder) (\<lambda>_.
         bind_io (log_debug [Text ''assets extracted'']) (\<lambda>_.
         (\<lambda>w.
           (let platform = or_else (process_env host w ''npm_config_platform'')
                             (process_platform host)
            in if platform \<noteq> ''win32'' then
                 bind_io (log_debug [Text ''setting file permissions...'']) (\<lambda>_.
                 bind_io (call_chmod host (path_join host [targetFolder, ''chromedriver'']) 493) (\<lambda>_.
                 log_debug [Text ''permissions set'']))
               else return_io ()) w))))))"

text \<open>The first two lines of the \<^verbatim>\<open>catch\<close> block: the minor-version baseline.\<close>

definition baseVersionOf :: "string \<Rightarrow> string" where
  "baseVersionOf version =
     (let parts = split CHR ''.'' version
      in toString (at_index parts 0) @ ''.'' @ toString (at_index parts 1) @ ''.0'')"

section \<open>Notions used in the statements\<close>

text \<open>
  Names for expressions of the source: the platform that \<^verbatim>\<open>attemptAssetsDownload\<close>
  tests (\<^verbatim>\<open>process.env.npm_config_platform || process.platform\<close>, so an override
  that is unset or empty gives the host platform), the \<^verbatim>\<open>conf\<close> object of
  \<^verbatim>\<open>downloadAssets\<close>, the \<^verbatim>\<open>targetFolder\<close>, the URL of the feed and the comparator
  handed to \<^verbatim>\<open>sort\<close>.
\<close>

definition effectivePlatform :: "('w, 'e, 'b) host \<Rightarrow> 'w \<Rightarrow> string" where
  "effectivePlatform host w =
     or_else (process_env host w ''npm_config_platform'') (process_platform host)"

definition downloadConf :: "('w, 'e, 'b) host \<Rightarrow> string \<Rightarrow> 'w \<Rightarrow> conf" where
  "downloadConf host version w =
     \<lparr> conf_version = version,
       artifactName = ''chromedriver'',
       force = (process_env host w ''force_no_cache'' = Some ''true''),
       cacheRoot = process_env host w ''electron_config_cache'',
       conf_platform = process_env host w ''npm_config_platform'',
       conf_arch = process_env host w ''npm_config_arch'' \<rparr>"

definition targetFolderOf :: "('w, 'e, 'b) host \<Rightarrow> string" where
  "targetFolderOf host = path_join host [dirname host, ''..'', ''bin'']"

definition feedUrl :: string where
  "feedUrl = ''https://electronjs.org/headers/index.json''"

definition compareReleases :: "('w, 'e, 'b) host \<Rightarrow> ElectronRelease \<Rightarrow> ElectronRelease \<Rightarrow> 'e + int" where
  "compareReleases host r s = compareVersions host (release_version r) (release_version s)"

text \<open>The versions that \<^verbatim>\<open>downloadArtifact\<close> was called with, in order of the calls.\<close>

fun downloaded_versions :: "'e event list \<Rightarrow> string list" where
  "downloaded_versions [] = []"
| "downloaded_versions (DownloadArtifact c r # evs) = conf_version c # downloaded_versions evs"
| "downloaded_versions (ev # evs) = downloaded_versions evs"

text \<open>
  A host for concrete runs: no environment variables are set, the feed gives the
  response \<open>feed\<close> (or fails with it), the artifact host has the versions
  \<open>available\<close> and answers 404 for the others, extraction and \<^verbatim>\<open>chmod\<close> succeed.
  The state counts the external calls. Its \<^verbatim>\<open>compareVersions\<close> and \<^verbatim>\<open>path.join\<close>
  are stand-ins (comparison by length, joining with a slash).
\<close>

definition example_host ::
  "string + ElectronRelease list \<Rightarrow> string list \<Rightarrow> string \<Rightarrow> (nat, string, unit) host" where
  "example_host feed available platform =
     \<lparr> process_platform = platform,
       process_env = (\<lambda>w name. None),
       dirname = ''/pkg/dist'',
       path_join = (\<lambda>ps. foldr (\<lambda>p rest. if rest = [] then p else p @ ''/'' @ rest) ps []),
       fetch = (\<lambda>url w. (case feed of Inl e \<Rightarrow> Inl e | Inr rs \<Rightarrow> Inr (), Suc w)),
       json = (\<lambda>body w. (feed, Suc w)),
       compareVersions = (\<lambda>a b. if a = [] \<or> b = [] then Inl ''Invalid argument''
                                  else Inr (int (length a) - int (length b))),
       fullVersions = [''26.0.0'' \<mapsto> ''116.0.5845.0''],
       downloadArtifact = (\<lambda>c w.
          (if conf_version c \<in> set available
           then Inr (''/cache/chromedriver-v'' @ conf_version c @ ''.zip'')
           else Inl (''HTTP 404 for v'' @ conf_version c), Suc w)),
       extractZip = (\<lambda>zipPath dir w. (None, Suc w)),
       chmod = (\<lambda>file mode w. (None, Suc w)) \<rparr>"

subsection \<open>Facts about \<open>split\<close> and the baseline, used for termination\<close>

lemma split_not_Nil: "split sep s \<noteq> []"
  by (induction s) (auto split: list.splits)

lemma split_append_sep: "split sep (a @ sep # b) = split sep a @ split sep b"
proof (induction a)
  case Nil
  show ?case by simp
next
  case (Cons c a)
  obtain p ps where ps: "split sep a = p # ps"
    using split_not_Nil [of sep a] by (cases "split sep a") auto
  show ?case using Cons ps by simp
qed

lemma split_no_sep: "sep \<notin> set s \<Longrightarrow> split sep s = [s]"
  by (induction s) auto

lemma split_pieces_no_sep: "p \<in> set (split sep s) \<Longrightarrow> sep \<notin> set p"
proof (induction s arbitrary: p)
  case Nil
  then show ?case by simp
next
  case (Cons c s)
  obtain q qs where qs: "split sep s = q # qs"
    using split_not_Nil [of sep s] by (cases "split sep s") auto
  show ?case
  proof (cases "c = sep")
    case True
    with Cons show ?thesis by auto
  next
    case False
    with Cons.prems qs have "p = c # q \<or> p \<in> set qs" by simp
    then show ?thesis
    proof
      assume "p = c # q"
      moreover have "sep \<notin> set q" using Cons.IH [of q] qs by simp
      ultimately show ?thesis using False by simp
    next
      assume "p \<in> set qs"
      then show ?thesis using Cons.IH [of p] qs by simp
    qed
  qed
qed

lemma toString_at_index_no_sep:
  "sep \<notin> set ''undefined'' \<Longrightarrow> sep \<notin> set (toString (at_index (split sep s) i))"
  using split_pieces_no_sep [of "split sep s ! i" sep s]
  by (auto simp: toString_def at_index_def)

lemma baseVersionOf_parts:
  assumes "CHR ''.'' \<notin> set p" "CHR ''.'' \<notin> set q"
  shows "split CHR ''.'' (p @ ''.'' @ q @ ''.0'') = [p, q, ''0'']"
proof -
  have "split CHR ''.'' (p @ CHR ''.'' # q @ CHR ''.'' # ''0'')
          = split CHR ''.'' p @ split CHR ''.'' q @ split CHR ''.'' ''0''"
    by (simp only: split_append_sep)
  then show ?thesis
    using split_no_sep [OF assms(1)] split_no_sep [OF assms(2)] by simp
qed

lemma baseVersionOf_idem: "baseVersionOf (baseVersionOf version) = baseVersionOf version"
proof -
  let ?parts = "split CHR ''.'' version"
  let ?p = "toString (at_index ?parts 0)"
  let ?q = "toString (at_index ?parts 1)"
  have p: "CHR ''.'' \<notin> set ?p" by (rule toString_at_index_no_sep) simp
  have q: "CHR ''.'' \<notin> set ?q" by (rule toString_at_index_no_sep) simp
  have b: "baseVersionOf version = ?p @ ''.'' @ ?q @ ''.0''"
    by (simp add: baseVersionOf_def Let_def)
  have "split CHR ''.'' (baseVersionOf version) = [?p, ?q, ''0'']"
    unfolding b by (rule baseVersionOf_parts [OF p q])
  then have "baseVersionOf (baseVersionOf version) = ?p @ ''.'' @ ?q @ ''.0''"
    by (simp add: baseVersionOf_def [of "baseVersionOf version"] Let_def at_index_def toString_def)
  with b show ?thesis by simp
qed

text \<open>
  \<^verbatim>\<open>attemptAssetsDownload(version = '')\<close>: a call without an argument is the call with
  the empty string. The function calls itself in its \<^verbatim>\<open>catch\<close> block, with the
  baseline, when the baseline differs from the version; it terminates because the
  baseline of a baseline is that baseline.
\<close>

function attemptAssetsDownload :: "('w, 'e, 'b) host \<Rightarrow> string \<Rightarrow> ('w, 'e, unit) io" where
  "attemptAssetsDownload host version =
     try_catch (attempt host version)
       (\<lambda>err.
         let baseVersion = baseVersionOf version
         in if baseVersion = version then
              bind_io (log_error [Text (''error downloading Chromedriver for Electron v'' @ version)]) (\<lambda>_.
              bind_io (log_error [Thrown err]) (\<lambda>_.
              throw_io err))
            else
              bind_io (log_warn [Text (''error downloading Chromedriver for Electron v'' @ version)]) (\<lambda>_.
              bind_io (log_debug [Text ''falling back to minor version...'']) (\<lambda>_.
              attemptAssetsDownload host baseVersion)))"
  by pat_completeness auto
termination
  by (relation "measure (\<lambda>(host, version). if baseVersionOf version = version then 0 else 1)")
     (auto simp: baseVersionOf_idem)

declare attemptAssetsDownload.simps [simp del]

section \<open>Properties of the binary locator\<close>

lemma getBinaryPath_unsupported:
  "platform \<notin> {''darwin'', ''linux'', ''win32''} \<Longrightarrow>
     getBinaryPath platform arch distPath appName = Inl (Error (''Unsupported platform: '' @ platform))"
  by (simp add: getBinaryPath_def Array_includes_def Object_values_def SupportedPlatform_def)

lemma getBinaryPath_darwin:
  "getBinaryPath ''darwin'' arch distPath appName =
     Inr (distPath @ ''/'' @ (if arch = ''arm64'' then ''mac-arm64'' else ''mac'') @ ''/'' @ appName
           @ ''.app/Contents/MacOS/'' @ getMacExecutableName appName)"
  by (simp add: getBinaryPath_def Array_includes_def Object_values_def SupportedPlatform_def pathMap_def toString_def)

lemma getBinaryPath_linux:
  "getBinaryPath ''linux'' arch distPath appName = Inr (distPath @ ''/linux-unpacked/'' @ appName)"
  by (simp add: getBinaryPath_def Array_includes_def Object_values_def SupportedPlatform_def pathMap_def toString_def)

lemma getBinaryPath_win32:
  "getBinaryPath ''win32'' arch distPath appName = Inr (distPath @ ''/win-unpacked/'' @ appName @ ''.exe'')"
  by (simp add: getBinaryPath_def Array_includes_def Object_values_def SupportedPlatform_def pathMap_def toString_def)

text \<open>
  Claim C4. For every platform outside \<^verbatim>\<open>darwin\<close>, \<^verbatim>\<open>linux\<close>, \<^verbatim>\<open>win32\<close>,
  \<^verbatim>\<open>getBinaryPath\<close> throws the error whose message is \<^verbatim>\<open>Unsupported platform: \<close>
  followed by that platform, and so returns no path; for each of the three supported
  platforms it returns a path and does not throw.
\<close>

theorem getBinaryPath_platform:
  "(platform \<notin> {''darwin'', ''linux'', ''win32''} \<longrightarrow>
      getBinaryPath platform arch distPath appName
        = Inl (Error (''Unsupported platform: '' @ platform)))
   \<and> (platform \<in> {''darwin'', ''linux'', ''win32''} \<longrightarrow>
      (\<exists>p. getBinaryPath platform arch distPath appName = Inr p))"
  using getBinaryPath_unsupported [of platform arch distPath appName]
    getBinaryPath_darwin [of arch distPath appName]
    getBinaryPath_linux [of arch distPath appName]
    getBinaryPath_win32 [of arch distPath appName]
  by auto

theorem getBinaryPath_platform_witness:
  "getBinaryPath ''freebsd'' ''x64'' ''/dist'' ''app'' = Inl (Error ''Unsupported platform: freebsd'')
   \<and> (\<exists>p. getBinaryPath ''win32'' ''x64'' ''/dist'' ''app'' = Inr p)"
  using getBinaryPath_platform [of "''freebsd''" "''x64''" "''/dist''" "''app''"]
    getBinaryPath_platform [of "''win32''" "''x64''" "''/dist''" "''app''"]
  by simp

text \<open>
  Claim C6. On \<^verbatim>\<open>darwin\<close>, for every \<^verbatim>\<open>distPath\<close> and \<^verbatim>\<open>appName\<close>, the path is
  \<^verbatim>\<open>distPath/<sub>/appName.app/Contents/MacOS/<executable>\<close> where the subfolder
  \<^verbatim>\<open><sub>\<close> is \<^verbatim>\<open>mac-arm64\<close> when the architecture is \<^verbatim>\<open>arm64\<close> and \<^verbatim>\<open>mac\<close> for every
  other architecture: the path component that follows the components of \<^verbatim>\<open>distPath\<close>
  is that subfolder.
\<close>

theorem getBinaryPath_darwin_subfolder:
  "getBinaryPath ''darwin'' arch distPath appName =
     Inr (distPath @ ''/'' @ (if arch = ''arm64'' then ''mac-arm64'' else ''mac'') @ ''/'' @ appName
           @ ''.app/Contents/MacOS/'' @ getMacExecutableName appName)
   \<and> (\<exists>p. getBinaryPath ''darwin'' arch distPath appName = Inr p
        \<and> at_index (split CHR ''/'' p) (length (split CHR ''/'' distPath))
            = Some (if arch = ''arm64'' then ''mac-arm64'' else ''mac''))"
proof -
  let ?sub = "if arch = ''arm64'' then ''mac-arm64'' else ''mac''"
  let ?rest = "appName @ ''.app/Contents/MacOS/'' @ getMacExecutableName appName"
  have sub: "CHR ''/'' \<notin> set ?sub" by simp
  have "split CHR ''/'' (distPath @ CHR ''/'' # ?sub @ CHR ''/'' # ?rest)
          = split CHR ''/'' distPath @ [?sub] @ split CHR ''/'' ?rest"
    using split_no_sep [OF sub] by (simp only: split_append_sep append_Cons append_Nil)
  then have "at_index (split CHR ''/'' (distPath @ CHR ''/'' # ?sub @ CHR ''/'' # ?rest))
               (length (split CHR ''/'' distPath)) = Some ?sub"
    by (simp add: at_index_def nth_append)
  then show ?thesis
    by (simp add: getBinaryPath_darwin)
qed

text \<open>
  Claim C5. The claim says that on \<^verbatim>\<open>darwin\<close> the inner executable name of an
  \<^verbatim>\<open>appName\<close> ending in \<^verbatim>\<open> Helper\<close> is \<^verbatim>\<open>appName\<close> without that trailing suffix.
  \<^verbatim>\<open>getMacExecutableName\<close> tests the suffix with \<^verbatim>\<open>endsWith\<close> but removes with
  \<^verbatim>\<open>replace\<close>, which takes out the leftmost occurrence. For the name
  \<^verbatim>\<open>My Helper App Helper\<close> the code gives the executable name \<^verbatim>\<open>My App Helper\<close>, not
  \<^verbatim>\<open>My Helper App\<close>; the bundle component keeps the full name.
\<close>

theorem getMacExecutableName_first_occurrence:
  "getBinaryPath ''darwin'' ''x64'' ''/dist'' ''My Helper App Helper''
     = Inr ''/dist/mac/My Helper App Helper.app/Contents/MacOS/My App Helper''
   \<and> endsWith ''My Helper App Helper'' '' Helper''
   \<and> getMacExecutableName ''My Helper App Helper'' = ''My App Helper''
   \<and> getMacExecutableName ''My Helper App Helper''
        \<noteq> take (length ''My Helper App Helper'' - length '' Helper'') ''My Helper App Helper''"
  by (simp add: getBinaryPath_darwin getMacExecutableName_def endsWith_def startsWith_def)

text \<open>
  Where \<^verbatim>\<open> Helper\<close> occurs in the name only as its suffix, the executable name is the
  name without the suffix, and a name that does not end in \<^verbatim>\<open> Helper\<close> is unchanged.
\<close>

lemma replace_only_suffix:
  "\<forall>i < length b. \<not> startsWith (drop i (b @ pat)) pat \<Longrightarrow> replace (b @ pat) pat rep = b @ rep"
proof (induction b)
  case Nil
  show ?case by (cases pat) (simp_all add: startsWith_def)
next
  case (Cons c b)
  from Cons.prems have h0: "\<not> startsWith ((c # b) @ pat) pat" by force
  have "\<forall>i < length b. \<not> startsWith (drop i (b @ pat)) pat"
  proof (intro allI impI)
    fix i assume "i < length b"
    then have "Suc i < length (c # b)" by simp
    with Cons.prems have "\<not> startsWith (drop (Suc i) ((c # b) @ pat)) pat" by blast
    then show "\<not> startsWith (drop i (b @ pat)) pat" by simp
  qed
  then have "replace (b @ pat) pat rep = b @ rep" by (rule Cons.IH)
  with h0 show ?case by simp
qed

lemma getMacExecutableName_no_suffix:
  "\<not> endsWith appName '' Helper'' \<Longrightarrow> getMacExecutableName appName = appName"
  by (simp add: getMacExecutableName_def)

lemma getMacExecutableName_only_suffix:
  assumes "\<forall>i < length b. \<not> startsWith (drop i (b @ '' Helper'')) '' Helper''"
  shows "getMacExecutableName (b @ '' Helper'') = b"
  using replace_only_suffix [OF assms, of "''''"]
  by (simp add: getMacExecutableName_def endsWith_def)

section \<open>Properties of one provisioning attempt\<close>

lemma downloaded_versions_append:
  "downloaded_versions (s @ t) = downloaded_versions s @ downloaded_versions t"
  by (induction s rule: downloaded_versions.induct) simp_all

lemmas io_defs = bind_io_def try_catch_def return_io_def throw_io_def log_debug_def
  log_warn_def log_error_def call_downloadArtifact_def call_extractZip_def call_chmod_def

text \<open>The four ways through the \<^verbatim>\<open>try\<close> block.\<close>

lemma attempt_download_fails:
  assumes "downloadArtifact host (downloadConf host version w) w = (Inl e, w1)"
  shows "attempt host version w =
           (Inl e,
            [Log Debug [Text ''chromedriver download config: '', Config (downloadConf host version w)],
             DownloadArtifact (downloadConf host version w) (Inl e)],
            w1)"
  using assms
  by (simp add: attempt_def downloadAssets_def downloadConf_def io_defs Let_def)

lemma attempt_extract_fails:
  assumes "downloadArtifact host (downloadConf host version w) w = (Inr zipPath, w1)"
    and "extractZip host zipPath (targetFolderOf host) w1 = (Some e, w2)"
  shows "attempt host version w =
           (Inl e,
            [Log Debug [Text ''chromedriver download config: '', Config (downloadConf host version w)],
             DownloadArtifact (downloadConf host version w) (Inr zipPath),
             Log Debug [Text ''assets downloaded to '', Text zipPath],
             ExtractZip zipPath (targetFolderOf host) (Some e)],
            w2)"
  using assms
  by (simp add: attempt_def downloadAssets_def downloadConf_def targetFolderOf_def io_defs Let_def)

lemma attempt_win32:
  assumes "downloadArtifact host (downloadConf host version w) w = (Inr zipPath, w1)"
    and "extractZip host zipPath (targetFolderOf host) w1 = (None, w2)"
    and "effectivePlatform host w2 = ''win32''"
  shows "attempt host version w =
           (Inr (),
            [Log Debug [Text ''chromedriver download config: '', Config (downloadConf host version w)],
             DownloadArtifact (downloadConf host version w) (Inr zipPath),
             Log Debug [Text ''assets downloaded to '', Text zipPath],
             ExtractZip zipPath (targetFolderOf host) None,
             Log Debug [Text ''assets extracted'']],
            w2)"
  using assms
  by (simp add: attempt_def downloadAssets_def downloadConf_def targetFolderOf_def
      effectivePlatform_def io_defs Let_def)

lemma attempt_chmod:
  assumes "downloadArtifact host (downloadConf host version w) w = (Inr zipPath, w1)"
    and "extractZip host zipPath (targetFolderOf host) w1 = (None, w2)"
    and "effectivePlatform host w2 \<noteq> ''win32''"
    and "chmod host (path_join host [targetFolderOf host, ''chromedriver'']) 493 w2 = (out, w3)"
  shows "attempt host version w =
           ((case out of None \<Rightarrow> Inr () | Some e \<Rightarrow> Inl e),
            [Log Debug [Text ''chromedriver download config: '', Config (downloadConf host version w)],
             DownloadArtifact (downloadConf host version w) (Inr zipPath),
             Log Debug [Text ''assets downloaded to '', Text zipPath],
             ExtractZip zipPath (targetFolderOf host) None,
             Log Debug [Text ''assets extracted''],
             Log Debug [Text ''setting file permissions...''],
             Chmod (path_join host [targetFolderOf host, ''chromedriver'']) 493 out]
            @ (case out of None \<Rightarrow> [Log Debug [Text ''permissions set'']] | Some e \<Rightarrow> []),
            w3)"
  using assms
  by (cases out)
     (simp_all add: attempt_def downloadAssets_def downloadConf_def targetFolderOf_def
      effectivePlatform_def io_defs Let_def)

lemma attempt_downloads_once:
  "downloaded_versions (fst (snd (attempt host version w))) = [version]"
proof -
  let ?c = "downloadConf host version w"
  obtain r1 w1 where d: "downloadArtifact host ?c w = (r1, w1)" by force
  show ?thesis
  proof (cases r1)
    case (Inl e)
    with d show ?thesis by (simp add: attempt_download_fails downloadConf_def)
  next
    case (Inr zipPath)
    obtain o2 w2 where x: "extractZip host zipPath (targetFolderOf host) w1 = (o2, w2)" by force
    show ?thesis
    proof (cases o2)
      case (Some e)
      with d Inr x show ?thesis by (simp add: attempt_extract_fails downloadConf_def)
    next
      case None
      obtain o3 w3 where
        c: "chmod host (path_join host [targetFolderOf host, ''chromedriver'']) 493 w2 = (o3, w3)"
        by force
      show ?thesis
      proof (cases "effectivePlatform host w2 = ''win32''")
        case True
        with d Inr x None show ?thesis by (simp add: attempt_win32 downloadConf_def)
      next
        case False
        with d Inr x None c show ?thesis
          by (cases o3) (simp_all add: attempt_chmod downloadConf_def)
      qed
    qed
  qed
qed

lemmas attempt_defs = attempt_def downloadAssets_def io_defs Let_def or_else_def

text \<open>
  Claim C9. Within one provisioning attempt (the \<^verbatim>\<open>try\<close> block), \<^verbatim>\<open>fs.chmod\<close> is
  called exactly when the download returned an archive, the extraction of that archive
  returned without throwing, and the effective platform read after the extraction
  (\<^verbatim>\<open>npm_config_platform\<close> if set and not empty, otherwise \<^verbatim>\<open>process.platform\<close>) is not
  \<^verbatim>\<open>win32\<close>. When it is called, a successful \<^verbatim>\<open>extractZip\<close> event precedes it in the
  trace, it is the only \<^verbatim>\<open>chmod\<close>, and it sets mode \<^verbatim>\<open>0o755\<close> (493) on
  \<^verbatim>\<open>targetFolder/chromedriver\<close>. On \<^verbatim>\<open>win32\<close> there is no \<^verbatim>\<open>chmod\<close> event.
\<close>

theorem attempt_chmod_after_extract:
  assumes "attempt host version w = (r, t, w')"
  shows "((\<exists>file mode out. Chmod file mode out \<in> set t) \<longleftrightarrow>
            (\<exists>zipPath w1 w2.
               downloadArtifact host (downloadConf host version w) w = (Inr zipPath, w1)
               \<and> extractZip host zipPath (targetFolderOf host) w1 = (None, w2)
               \<and> effectivePlatform host w2 \<noteq> ''win32''))
         \<and> (\<forall>pre file mode out post.
               t = pre @ Chmod file mode out # post \<longrightarrow>
                 (\<exists>zipPath. ExtractZip zipPath (targetFolderOf host) None \<in> set pre)
                 \<and> file = path_join host [targetFolderOf host, ''chromedriver'']
                 \<and> mode = 493
                 \<and> (\<forall>f m o'. Chmod f m o' \<notin> set pre \<union> set post))"
proof -
  let ?c = "downloadConf host version w"
  obtain r1 w1 where d: "downloadArtifact host ?c w = (r1, w1)" by force
  show ?thesis
  proof (cases r1)
    case (Inl e)
    with d assms have "t = [Log Debug [Text ''chromedriver download config: '', Config ?c],
             DownloadArtifact ?c (Inl e)]"
      by (simp add: attempt_download_fails)
    with d Inl show ?thesis by (auto simp: append_eq_Cons_conv Cons_eq_append_conv)
  next
    case (Inr zipPath)
    obtain o2 w2 where x: "extractZip host zipPath (targetFolderOf host) w1 = (o2, w2)" by force
    show ?thesis
    proof (cases o2)
      case (Some e)
      with d Inr x assms have "t = [Log Debug [Text ''chromedriver download config: '', Config ?c],
             DownloadArtifact ?c (Inr zipPath),
             Log Debug [Text ''assets downloaded to '', Text zipPath],
             ExtractZip zipPath (targetFolderOf host) (Some e)]"
        by (simp add: attempt_extract_fails)
      with d Inr x Some show ?thesis by (auto simp: append_eq_Cons_conv Cons_eq_append_conv)
    next
      case None
      obtain o3 w3 where
        c: "chmod host (path_join host [targetFolderOf host, ''chromedriver'']) 493 w2 = (o3, w3)"
        by force
      show ?thesis
      proof (cases "effectivePlatform host w2 = ''win32''")
        case True
        with d Inr x None assms have "t = [Log Debug [Text ''chromedriver download config: '', Config ?c],
             DownloadArtifact ?c (Inr zipPath),
             Log Debug [Text ''assets downloaded to '', Text zipPath],
             ExtractZip zipPath (targetFolderOf host) None,
             Log Debug [Text ''assets extracted'']]"
          by (simp add: attempt_win32)
        with d Inr x None True show ?thesis
          by (auto simp: append_eq_Cons_conv Cons_eq_append_conv)
      next
        case False
        with d Inr x None c assms have t: "t = [Log Debug [Text ''chromedriver download config: '', Config ?c],
             DownloadArtifact ?c (Inr zipPath),
             Log Debug [Text ''assets downloaded to '', Text zipPath],
             ExtractZip zipPath (targetFolderOf host) None,
             Log Debug [Text ''assets extracted''],
             Log Debug [Text ''setting file permissions...''],
             Chmod (path_join host [targetFolderOf host, ''chromedriver'']) 493 o3]
            @ (case o3 of None \<Rightarrow> [Log Debug [Text ''permissions set'']] | Some e \<Rightarrow> [])"
          by (simp add: attempt_chmod)
        have 1: "(\<exists>file mode out. Chmod file mode out \<in> set t)" unfolding t by auto
        have 2: "\<exists>zipPath w1 w2.
               downloadArtifact host ?c w = (Inr zipPath, w1)
               \<and> extractZip host zipPath (targetFolderOf host) w1 = (None, w2)
               \<and> effectivePlatform host w2 \<noteq> ''win32''"
          using d Inr x None False by auto
        have 3: "\<forall>pre file mode out post.
               t = pre @ Chmod file mode out # post \<longrightarrow>
                 (\<exists>zipPath. ExtractZip zipPath (targetFolderOf host) None \<in> set pre)
                 \<and> file = path_join host [targetFolderOf host, ''chromedriver'']
                 \<and> mode = 493
                 \<and> (\<forall>f m o'. Chmod f m o' \<notin> set pre \<union> set post)"
          unfolding t
          by (cases o3) (auto simp: append_eq_Cons_conv Cons_eq_append_conv)
        from 1 2 3 show ?thesis by blast
      qed
    qed
  qed
qed

theorem attempt_chmod_after_extract_witness:
  "attempt (example_host (Inl ''ENOTFOUND'') [''10.1.0''] ''linux'') ''10.1.0'' 0 =
     (Inr (),
      [Log Debug [Text ''chromedriver download config: '',
                  Config \<lparr> conf_version = ''10.1.0'', artifactName = ''chromedriver'',
                           force = False, cacheRoot = None, conf_platform = None,
                           conf_arch = None \<rparr>],
       DownloadArtifact \<lparr> conf_version = ''10.1.0'', artifactName = ''chromedriver'',
                           force = False, cacheRoot = None, conf_platform = None,
                           conf_arch = None \<rparr> (Inr ''/cache/chromedriver-v10.1.0.zip''),
       Log Debug [Text ''assets downloaded to '', Text ''/cache/chromedriver-v10.1.0.zip''],
       ExtractZip ''/cache/chromedriver-v10.1.0.zip'' ''/pkg/dist/../bin'' None,
       Log Debug [Text ''assets extracted''],
       Log Debug [Text ''setting file permissions...''],
       Chmod ''/pkg/dist/../bin/chromedriver'' 493 None,
       Log Debug [Text ''permissions set'']],
      3)
   \<and> (\<exists>zipPath w1 w2.
         downloadArtifact (example_host (Inl ''ENOTFOUND'') [''10.1.0''] ''linux'')
           (downloadConf (example_host (Inl ''ENOTFOUND'') [''10.1.0''] ''linux'') ''10.1.0'' 0) 0
             = (Inr zipPath, w1)
         \<and> extractZip (example_host (Inl ''ENOTFOUND'') [''10.1.0''] ''linux'') zipPath
             (targetFolderOf (example_host (Inl ''ENOTFOUND'') [''10.1.0''] ''linux'')) w1 = (None, w2)
         \<and> effectivePlatform (example_host (Inl ''ENOTFOUND'') [''10.1.0''] ''linux'') w2 \<noteq> ''win32'')
   \<and> (\<forall>file mode out.
         Chmod file mode out
           \<notin> set (fst (snd (attempt (example_host (Inl ''ENOTFOUND'') [''10.1.0''] ''win32'') ''10.1.0'' 0))))"
proof -
  let ?H = "example_host (Inl ''ENOTFOUND'') [''10.1.0''] ''linux''"
  let ?W = "example_host (Inl ''ENOTFOUND'') [''10.1.0''] ''win32''"
  let ?c = "\<lparr> conf_version = ''10.1.0'', artifactName = ''chromedriver'',
                           force = False, cacheRoot = None, conf_platform = None,
                           conf_arch = None \<rparr>"
  let ?t = "[Log Debug [Text ''chromedriver download config: '', Config ?c],
       DownloadArtifact ?c (Inr ''/cache/chromedriver-v10.1.0.zip''),
       Log Debug [Text ''assets downloaded to '', Text ''/cache/chromedriver-v10.1.0.zip''],
       ExtractZip ''/cache/chromedriver-v10.1.0.zip'' ''/pkg/dist/../bin'' None,
       Log Debug [Text ''assets extracted''],
       Log Debug [Text ''setting file permissions...''],
       Chmod ''/pkg/dist/../bin/chromedriver'' 493 None,
       Log Debug [Text ''permissions set'']]"
  have a: "attempt ?H ''10.1.0'' 0 = (Inr (), ?t, 3)"
    by (simp add: attempt_defs example_host_def)
  have c: "\<exists>file mode out. Chmod file mode out \<in> set ?t" by simp
  obtain r t w' where w: "attempt ?W ''10.1.0'' 0 = (r, t, w')"
    by (cases "attempt ?W ''10.1.0'' 0") auto
  have "\<not> (\<exists>zipPath w1 w2.
               downloadArtifact ?W (downloadConf ?W ''10.1.0'' 0) 0 = (Inr zipPath, w1)
               \<and> extractZip ?W zipPath (targetFolderOf ?W) w1 = (None, w2)
               \<and> effectivePlatform ?W w2 \<noteq> ''win32'')"
    by (simp add: effectivePlatform_def or_else_def example_host_def)
  with attempt_chmod_after_extract [OF w] have "\<forall>file mode out. Chmod file mode out \<notin> set t"
    by blast
  with attempt_chmod_after_extract [OF a] a c w show ?thesis by simp
qed

section \<open>Properties of the fallback\<close>

lemma attemptAssetsDownload_at_baseline:
  assumes "baseVersionOf version = version"
  shows "attemptAssetsDownload host version w =
           (case attempt host version w of
              (Inr u, t, w') \<Rightarrow> (Inr u, t, w')
            | (Inl err, t, w') \<Rightarrow>
                (Inl err,
                 t @ [Log Err [Text (''error downloading Chromedriver for Electron v'' @ version)],
                      Log Err [Thrown err]],
                 w'))"
  using assms
  by (subst attemptAssetsDownload.simps)
     (simp add: io_defs Let_def split: prod.splits sum.splits)

lemma attemptAssetsDownload_off_baseline:
  assumes "baseVersionOf version \<noteq> version"
  shows "attemptAssetsDownload host version w =
           (case attempt host version w of
              (Inr u, t, w') \<Rightarrow> (Inr u, t, w')
            | (Inl err, t, w') \<Rightarrow>
                (case attemptAssetsDownload host (baseVersionOf version) w' of
                   (r, t', w'') \<Rightarrow>
                     (r,
                      t @ [Log Warn [Text (''error downloading Chromedriver for Electron v'' @ version)],
                           Log Debug [Text ''falling back to minor version...'']] @ t',
                      w'')))"
  using assms
  by (subst attemptAssetsDownload.simps)
     (simp add: io_defs Let_def split: prod.splits sum.splits)

text \<open>
  Claim C2. For a version that equals its baseline (such as \<^verbatim>\<open>10.1.0\<close>), when the
  attempt throws \<open>err\<close>, \<^verbatim>\<open>attemptAssetsDownload\<close> makes no further attempt (the only
  download call is the one for that version), logs the message and the error at error
  level, and throws that same \<open>err\<close>.
\<close>

theorem attemptAssetsDownload_baseline_terminal:
  assumes "baseVersionOf version = version"
    and "attempt host version w = (Inl err, t, w')"
  shows "attemptAssetsDownload host version w =
           (Inl err,
            t @ [Log Err [Text (''error downloading Chromedriver for Electron v'' @ version)],
                 Log Err [Thrown err]],
            w')
         \<and> downloaded_versions (fst (snd (attemptAssetsDownload host version w))) = [version]"
proof -
  have 1: "attemptAssetsDownload host version w =
           (Inl err,
            t @ [Log Err [Text (''error downloading Chromedriver for Electron v'' @ version)],
                 Log Err [Thrown err]],
            w')"
    using assms by (simp add: attemptAssetsDownload_at_baseline)
  have "downloaded_versions t = [version]"
    using attempt_downloads_once [of host version w] assms(2) by simp
  with 1 show ?thesis by (simp add: downloaded_versions_append)
qed

theorem attemptAssetsDownload_baseline_terminal_witness:
  "baseVersionOf ''10.1.0'' = ''10.1.0''
   \<and> attemptAssetsDownload (example_host (Inl ''ENOTFOUND'') [] ''linux'') ''10.1.0'' 0 =
       (Inl ''HTTP 404 for v10.1.0'',
        [Log Debug [Text ''chromedriver download config: '',
                    Config \<lparr> conf_version = ''10.1.0'', artifactName = ''chromedriver'',
                             force = False, cacheRoot = None, conf_platform = None,
                             conf_arch = None \<rparr>],
         DownloadArtifact \<lparr> conf_version = ''10.1.0'', artifactName = ''chromedriver'',
                             force = False, cacheRoot = None, conf_platform = None,
                             conf_arch = None \<rparr> (Inl ''HTTP 404 for v10.1.0''),
         Log Err [Text ''error downloading Chromedriver for Electron v10.1.0''],
         Log Err [Thrown ''HTTP 404 for v10.1.0'']],
        1)"
proof -
  let ?H = "example_host (Inl ''ENOTFOUND'') [] ''linux''"
  let ?c = "\<lparr> conf_version = ''10.1.0'', artifactName = ''chromedriver'',
                             force = False, cacheRoot = None, conf_platform = None,
                             conf_arch = None \<rparr>"
  have b: "baseVersionOf ''10.1.0'' = ''10.1.0''"
    by (simp add: baseVersionOf_def at_index_def toString_def)
  have a: "attempt ?H ''10.1.0'' 0 =
       (Inl ''HTTP 404 for v10.1.0'',
        [Log Debug [Text ''chromedriver download config: '', Config ?c],
         DownloadArtifact ?c (Inl ''HTTP 404 for v10.1.0'')], 1)"
    by (simp add: attempt_defs example_host_def)
  from attemptAssetsDownload_baseline_terminal [OF b a] b show ?thesis by simp
qed

text \<open>
  Claim C1. For a version that differs from its baseline (such as \<^verbatim>\<open>10.1.5\<close>), when
  the attempt for it throws, \<^verbatim>\<open>attemptAssetsDownload\<close> logs a warning and runs exactly
  one more attempt, for the baseline \<^verbatim>\<open>{major}.{minor}.0\<close>: the download calls are those
  for the version and for the baseline, in this order. If the baseline attempt returns,
  the call returns; if it throws \<open>err'\<close>, the call logs and throws that \<open>err'\<close>, the
  error of the baseline attempt.
\<close>

theorem attemptAssetsDownload_fallback_once:
  assumes "baseVersionOf version \<noteq> version"
    and "attempt host version w = (Inl err, t, w')"
  shows "attemptAssetsDownload host version w =
           (case attempt host (baseVersionOf version) w' of
              (Inr u, t', w'') \<Rightarrow>
                (Inr u,
                 t @ [Log Warn [Text (''error downloading Chromedriver for Electron v'' @ version)],
                      Log Debug [Text ''falling back to minor version...'']] @ t',
                 w'')
            | (Inl err', t', w'') \<Rightarrow>
                (Inl err',
                 t @ [Log Warn [Text (''error downloading Chromedriver for Electron v'' @ version)],
                      Log Debug [Text ''falling back to minor version...'']] @ t'
                   @ [Log Err [Text (''error downloading Chromedriver for Electron v''
                                      @ baseVersionOf version)],
                      Log Err [Thrown err']],
                 w''))
         \<and> downloaded_versions (fst (snd (attemptAssetsDownload host version w)))
             = [version, baseVersionOf version]"
proof -
  let ?b = "baseVersionOf version"
  obtain r' t' w'' where a2: "attempt host ?b w' = (r', t', w'')"
    by (cases "attempt host ?b w'") auto
  have b: "baseVersionOf ?b = ?b" by (rule baseVersionOf_idem)
  have d1: "downloaded_versions t = [version]"
    using attempt_downloads_once [of host version w] assms(2) by simp
  have d2: "downloaded_versions t' = [?b]"
    using attempt_downloads_once [of host ?b w'] a2 by simp
  show ?thesis
    using assms a2 d1 d2
    by (cases r')
       (simp_all add: attemptAssetsDownload_off_baseline attemptAssetsDownload_at_baseline [OF b]
          downloaded_versions_append)
qed

theorem attemptAssetsDownload_fallback_once_witness:
  "baseVersionOf ''10.1.5'' = ''10.1.0''
   \<and> attemptAssetsDownload (example_host (Inl ''ENOTFOUND'') [] ''linux'') ''10.1.5'' 0 =
       (Inl ''HTTP 404 for v10.1.0'',
        [Log Debug [Text ''chromedriver download config: '',
                    Config \<lparr> conf_version = ''10.1.5'', artifactName = ''chromedriver'',
                             force = False, cacheRoot = None, conf_platform = None,
                             conf_arch = None \<rparr>],
         DownloadArtifact \<lparr> conf_version = ''10.1.5'', artifactName = ''chromedriver'',
                             force = False, cacheRoot = None, conf_platform = None,
                             conf_arch = None \<rparr> (Inl ''HTTP 404 for v10.1.5''),
         Log Warn [Text ''error downloading Chromedriver for Electron v10.1.5''],
         Log Debug [Text ''falling back to minor version...''],
         Log Debug [Text ''chromedriver download config: '',
                    Config \<lparr> conf_version = ''10.1.0'', artifactName = ''chromedriver'',
                             force = False, cacheRoot = None, conf_platform = None,
                             conf_arch = None \<rparr>],
         DownloadArtifact \<lparr> conf_version = ''10.1.0'', artifactName = ''chromedriver'',
                             force = False, cacheRoot = None, conf_platform = None,
                             conf_arch = None \<rparr> (Inl ''HTTP 404 for v10.1.0''),
         Log Err [Text ''error downloading Chromedriver for Electron v10.1.0''],
         Log Err [Thrown ''HTTP 404 for v10.1.0'']],
        2)
   \<and> downloaded_versions
         (fst (snd (attemptAssetsDownload (example_host (Inl ''ENOTFOUND'') [] ''linux'') ''10.1.5'' 0)))
       = [''10.1.5'', ''10.1.0'']"
proof -
  let ?H = "example_host (Inl ''ENOTFOUND'') [] ''linux''"
  let ?c = "\<lambda>v. \<lparr> conf_version = v, artifactName = ''chromedriver'',
                             force = False, cacheRoot = None, conf_platform = None,
                             conf_arch = None \<rparr>"
  have b: "baseVersionOf ''10.1.5'' = ''10.1.0''"
    by (simp add: baseVersionOf_def at_index_def toString_def)
  then have nb: "baseVersionOf ''10.1.5'' \<noteq> ''10.1.5''" by simp
  have a: "attempt ?H ''10.1.5'' 0 =
       (Inl ''HTTP 404 for v10.1.5'',
        [Log Debug [Text ''chromedriver download config: '', Config (?c ''10.1.5'')],
         DownloadArtifact (?c ''10.1.5'') (Inl ''HTTP 404 for v10.1.5'')], 1)"
    by (simp add: attempt_defs example_host_def)
  have a': "attempt ?H ''10.1.0'' 1 =
       (Inl ''HTTP 404 for v10.1.0'',
        [Log Debug [Text ''chromedriver download config: '', Config (?c ''10.1.0'')],
         DownloadArtifact (?c ''10.1.0'') (Inl ''HTTP 404 for v10.1.0'')], 2)"
    by (simp add: attempt_defs example_host_def)
  from attemptAssetsDownload_fallback_once [OF nb a] b a' show ?thesis by simp
qed

text \<open>
  Claim C10. For every version string, the empty string and strings with fewer than
  two dot-separated pieces included, the baseline is a fixed point of the baseline
  computation, and \<^verbatim>\<open>attemptAssetsDownload\<close> (a total function: its recursion was shown
  to terminate above) calls \<^verbatim>\<open>downloadArtifact\<close> either once, for the version, or
  twice, for the version and then its baseline: at most two attempts.
\<close>

theorem attemptAssetsDownload_at_most_two_attempts:
  "baseVersionOf (baseVersionOf version) = baseVersionOf version
   \<and> (downloaded_versions (fst (snd (attemptAssetsDownload host version w))) = [version]
      \<or> downloaded_versions (fst (snd (attemptAssetsDownload host version w)))
           = [version, baseVersionOf version])
   \<and> length (downloaded_versions (fst (snd (attemptAssetsDownload host version w)))) \<le> 2"
proof -
  let ?b = "baseVersionOf version"
  let ?d = "downloaded_versions (fst (snd (attemptAssetsDownload host version w)))"
  obtain r t w' where a: "attempt host version w = (r, t, w')"
    by (cases "attempt host version w") auto
  have d1: "downloaded_versions t = [version]"
    using attempt_downloads_once [of host version w] a by simp
  have "?d = [version] \<or> ?d = [version, ?b]"
  proof (cases "?b = version")
    case True
    then show ?thesis
      using a d1
      by (cases r) (simp_all add: attemptAssetsDownload_at_baseline downloaded_versions_append)
  next
    case False
    show ?thesis
    proof (cases r)
      case (Inr u)
      with False a d1 show ?thesis by (simp add: attemptAssetsDownload_off_baseline)
    next
      case (Inl err)
      obtain r' t' w'' where a2: "attempt host ?b w' = (r', t', w'')"
        by (cases "attempt host ?b w'") auto
      have d2: "downloaded_versions t' = [?b]"
        using attempt_downloads_once [of host ?b w'] a2 by simp
      have b: "baseVersionOf ?b = ?b" by (rule baseVersionOf_idem)
      show ?thesis
        using False Inl a a2 d1 d2
        by (cases r')
           (simp_all add: attemptAssetsDownload_off_baseline
              attemptAssetsDownload_at_baseline [OF b] downloaded_versions_append)
    qed
  qed
  then show ?thesis by (auto simp: baseVersionOf_idem)
qed

theorem attemptAssetsDownload_at_most_two_attempts_witness:
  "baseVersionOf '''' = ''.undefined.0''
   \<and> baseVersionOf ''.undefined.0'' = ''.undefined.0''
   \<and> length (downloaded_versions
         (fst (snd (attemptAssetsDownload (example_host (Inl ''ENOTFOUND'') [] ''linux'') '''' 0))))
       \<le> 2"
proof -
  have b: "baseVersionOf '''' = ''.undefined.0''"
    by (simp add: baseVersionOf_def at_index_def toString_def)
  from attemptAssetsDownload_at_most_two_attempts
         [of "''''" "example_host (Inl ''ENOTFOUND'') [] ''linux''" 0] b
  show ?thesis by simp
qed

section \<open>Properties of the version resolution\<close>

lemma Array_insert_set: "Array_insert cmp x ys = Inr zs \<Longrightarrow> set zs = insert x (set ys)"
proof (induction ys arbitrary: zs)
  case Nil
  then show ?case by auto
next
  case (Cons y ys)
  then show ?case
    by (fastforce split: sum.splits if_splits)
qed

lemma Array_sort_set: "Array_sort cmp xs = Inr ys \<Longrightarrow> set ys = set xs"
proof (induction xs arbitrary: ys)
  case Nil
  then show ?case by simp
next
  case (Cons x xs)
  then show ?case
    by (auto split: sum.splits dest!: Array_insert_set)
qed

lemma fold_set_property_other:
  "key \<notin> release_version ` set rs \<Longrightarrow>
     fold (\<lambda>r m. set_property m (release_version r) (release_chrome r)) rs m key = m key"
  by (induction rs arbitrary: m) (auto simp: set_property_def)

lemma buildVersionMap_absent:
  "key \<notin> release_version ` set rs \<Longrightarrow> buildVersionMap rs key = None"
  by (simp add: buildVersionMap_def fold_set_property_other)

lemmas feed_defs = call_fetch_def call_json_def of_result_def

text \<open>The four ways through \<^verbatim>\<open>getChromiumVersion\<close>.\<close>

lemma getChromiumVersion_fetch_fails:
  assumes "fetch host feedUrl w = (Inl e, w')"
  shows "getChromiumVersion host electronVersion w =
           (Inr (get_property (fullVersions host) (toString electronVersion)),
            [Log Debug [Text ''Updating Electron - Chromium version map...''],
             Fetch feedUrl (Some e),
             Log Debug [Text ''Map update failed.'']],
            w')"
  using assms by (simp add: getChromiumVersion_def feedUrl_def io_defs feed_defs)

lemma getChromiumVersion_json_fails:
  assumes "fetch host feedUrl w = (Inr body, w1)" and "json host body w1 = (Inl e, w')"
  shows "getChromiumVersion host electronVersion w =
           (Inr (get_property (fullVersions host) (toString electronVersion)),
            [Log Debug [Text ''Updating Electron - Chromium version map...''],
             Fetch feedUrl None, Json (Some e),
             Log Debug [Text ''Map update failed.'']],
            w')"
  using assms by (simp add: getChromiumVersion_def feedUrl_def io_defs feed_defs)

lemma getChromiumVersion_sort_fails:
  assumes "fetch host feedUrl w = (Inr body, w1)" and "json host body w1 = (Inr feed, w')"
    and "Array_sort (compareReleases host) feed = Inl e"
  shows "getChromiumVersion host electronVersion w =
           (Inr (get_property (fullVersions host) (toString electronVersion)),
            [Log Debug [Text ''Updating Electron - Chromium version map...''],
             Fetch feedUrl None, Json None,
             Log Debug [Text ''Map update failed.'']],
            w')"
proof -
  have "Array_sort (\<lambda>r s. compareVersions host (release_version r) (release_version s)) feed = Inl e"
    using assms(3) by (simp add: compareReleases_def [abs_def])
  with assms(1,2) show ?thesis
    by (simp add: getChromiumVersion_def feedUrl_def io_defs feed_defs)
qed

lemma getChromiumVersion_remote:
  assumes "fetch host feedUrl w = (Inr body, w1)" and "json host body w1 = (Inr feed, w')"
    and "Array_sort (compareReleases host) feed = Inr sortedVersions"
  shows "getChromiumVersion host electronVersion w =
           (Inr (get_property (buildVersionMap sortedVersions) (toString electronVersion)),
            [Log Debug [Text ''Updating Electron - Chromium version map...''],
             Fetch feedUrl None, Json None],
            w')"
proof -
  have "Array_sort (\<lambda>r s. compareVersions host (release_version r) (release_version s)) feed
          = Inr sortedVersions"
    using assms(3) by (simp add: compareReleases_def [abs_def])
  with assms(1,2) show ?thesis
    by (simp add: getChromiumVersion_def feedUrl_def io_defs feed_defs)
qed

lemma getChromiumVersion_never_throws:
  "\<exists>v. fst (getChromiumVersion host electronVersion w) = Inr v"
proof -
  obtain r1 w1 where f: "fetch host feedUrl w = (r1, w1)" by force
  show ?thesis
  proof (cases r1)
    case (Inl e)
    with f show ?thesis by (simp add: getChromiumVersion_fetch_fails)
  next
    case (Inr body)
    obtain r2 w2 where j: "json host body w1 = (r2, w2)" by force
    show ?thesis
    proof (cases r2)
      case (Inl e)
      with f Inr j show ?thesis by (simp add: getChromiumVersion_json_fails)
    next
      case feed: (Inr feed)
      show ?thesis
      proof (cases "Array_sort (compareReleases host) feed")
        case (Inl e)
        with f Inr j feed show ?thesis by (simp add: getChromiumVersion_sort_fails)
      next
        case sorted: (Inr sortedVersions)
        with f Inr j feed show ?thesis by (simp add: getChromiumVersion_remote)
      qed
    qed
  qed
qed

text \<open>
  Claim C3. For every input version, when \<^verbatim>\<open>fetch\<close> throws, or \<^verbatim>\<open>body.json()\<close> throws,
  or comparing the versions of the parsed feed throws, \<^verbatim>\<open>getChromiumVersion\<close> does not
  throw: it logs \<^verbatim>\<open>Map update failed.\<close> at debug level as its last event and returns
  \<^verbatim>\<open>fullVersions[electronVersion]\<close>, which is the table's string for every version the
  table has.
\<close>

theorem getChromiumVersion_falls_back:
  assumes "fetch host feedUrl w = (Inl e, w')
           \<or> (\<exists>body w1. fetch host feedUrl w = (Inr body, w1) \<and> json host body w1 = (Inl e, w'))
           \<or> (\<exists>body w1 feed. fetch host feedUrl w = (Inr body, w1)
                 \<and> json host body w1 = (Inr feed, w')
                 \<and> Array_sort (compareReleases host) feed = Inl e)"
  shows "(\<exists>t. getChromiumVersion host electronVersion w
               = (Inr (get_property (fullVersions host) (toString electronVersion)),
                  t @ [Log Debug [Text ''Map update failed.'']], w'))
         \<and> (\<forall>version chrome.
               electronVersion = Some version \<and> fullVersions host version = Some chrome \<longrightarrow>
                 fst (getChromiumVersion host electronVersion w) = Inr (Str chrome))"
proof -
  let ?r = "Inr (get_property (fullVersions host) (toString electronVersion))"
  have 1: "\<exists>t. getChromiumVersion host electronVersion w
               = (?r, t @ [Log Debug [Text ''Map update failed.'']], w')"
    using assms
  proof (elim disjE exE conjE)
    assume "fetch host feedUrl w = (Inl e, w')"
    then have "getChromiumVersion host electronVersion w =
        (?r, [Log Debug [Text ''Updating Electron - Chromium version map...''],
              Fetch feedUrl (Some e)] @ [Log Debug [Text ''Map update failed.'']], w')"
      by (simp add: getChromiumVersion_fetch_fails)
    then show ?thesis by blast
  next
    fix body w1
    assume "fetch host feedUrl w = (Inr body, w1)" "json host body w1 = (Inl e, w')"
    then have "getChromiumVersion host electronVersion w =
        (?r, [Log Debug [Text ''Updating Electron - Chromium version map...''],
              Fetch feedUrl None, Json (Some e)] @ [Log Debug [Text ''Map update failed.'']], w')"
      by (simp add: getChromiumVersion_json_fails)
    then show ?thesis by blast
  next
    fix body w1 feed
    assume "fetch host feedUrl w = (Inr body, w1)" "json host body w1 = (Inr feed, w')"
      "Array_sort (compareReleases host) feed = Inl e"
    then have "getChromiumVersion host electronVersion w =
        (?r, [Log Debug [Text ''Updating Electron - Chromium version map...''],
              Fetch feedUrl None, Json None] @ [Log Debug [Text ''Map update failed.'']], w')"
      by (simp add: getChromiumVersion_sort_fails)
    then show ?thesis by blast
  qed
  then have "fst (getChromiumVersion host electronVersion w) = ?r" by auto
  then have 2: "\<forall>version chrome.
               electronVersion = Some version \<and> fullVersions host version = Some chrome \<longrightarrow>
                 fst (getChromiumVersion host electronVersion w) = Inr (Str chrome)"
    by (auto simp: get_property_def toString_def)
  from 1 2 show ?thesis by blast
qed

theorem getChromiumVersion_falls_back_witness:
  "fetch (example_host (Inl ''ENOTFOUND'') [] ''linux'') feedUrl 0 = (Inl ''ENOTFOUND'', 1)
   \<and> getChromiumVersion (example_host (Inl ''ENOTFOUND'') [] ''linux'') (Some ''26.0.0'') 0
       = (Inr (Str ''116.0.5845.0''),
          [Log Debug [Text ''Updating Electron - Chromium version map...''],
           Fetch feedUrl (Some ''ENOTFOUND''),
           Log Debug [Text ''Map update failed.'']],
          1)"
proof -
  let ?H = "example_host (Inl ''ENOTFOUND'') [] ''linux''"
  have f: "fetch ?H feedUrl 0 = (Inl ''ENOTFOUND'', 1)"
    by (simp add: example_host_def)
  then have d: "fetch ?H feedUrl 0 = (Inl ''ENOTFOUND'', 1)
           \<or> (\<exists>body w1. fetch ?H feedUrl 0 = (Inr body, w1) \<and> json ?H body w1 = (Inl ''ENOTFOUND'', 1))
           \<or> (\<exists>body w1 feed. fetch ?H feedUrl 0 = (Inr body, w1)
                 \<and> json ?H body w1 = (Inr feed, 1)
                 \<and> Array_sort (compareReleases ?H) feed = Inl ''ENOTFOUND'')"
    by simp
  have t: "fullVersions ?H ''26.0.0'' = Some ''116.0.5845.0''"
    by (simp add: example_host_def)
  have g: "getChromiumVersion ?H (Some ''26.0.0'') 0
       = (Inr (get_property (fullVersions ?H) ''26.0.0''),
          [Log Debug [Text ''Updating Electron - Chromium version map...''],
           Fetch feedUrl (Some ''ENOTFOUND''),
           Log Debug [Text ''Map update failed.'']],
          1)"
    using getChromiumVersion_fetch_fails [OF f, of "Some ''26.0.0''"] by (simp add: toString_def)
  from getChromiumVersion_falls_back [OF d, of "Some ''26.0.0''"] t
  have "fst (getChromiumVersion ?H (Some ''26.0.0'') 0) = Inr (Str ''116.0.5845.0'')"
    by blast
  with g f show ?thesis by simp
qed

text \<open>
  Claim C7. The result of \<^verbatim>\<open>getChromiumVersion\<close> depends on the world only through the
  response of the feed: two calls, in any two states, that receive the same list of
  \<^verbatim>\<open>{version, chrome}\<close> records return the same result, namely the entry for the
  version in the map built from the sorted list (or the table's entry, when sorting
  throws). For the feed \<^verbatim>\<open>[{version: "26.0.0", chrome: "116.0.5845.0"}]\<close> the version
  \<^verbatim>\<open>26.0.0\<close> resolves to \<^verbatim>\<open>116.0.5845.0\<close>.
\<close>

theorem getChromiumVersion_deterministic:
  assumes "fetch host feedUrl w = (Inr body, w1)" and "json host body w1 = (Inr feed, w2)"
    and "fetch host feedUrl v = (Inr body', v1)" and "json host body' v1 = (Inr feed, v2)"
  shows "fst (getChromiumVersion host electronVersion w)
           = fst (getChromiumVersion host electronVersion v)
         \<and> fst (getChromiumVersion host electronVersion w)
           = (case Array_sort (compareReleases host) feed of
                Inr sortedVersions \<Rightarrow>
                  Inr (get_property (buildVersionMap sortedVersions) (toString electronVersion))
              | Inl e \<Rightarrow> Inr (get_property (fullVersions host) (toString electronVersion)))"
proof (cases "Array_sort (compareReleases host) feed")
  case (Inl e)
  with assms show ?thesis by (simp add: getChromiumVersion_sort_fails)
next
  case (Inr sortedVersions)
  with assms show ?thesis by (simp add: getChromiumVersion_remote)
qed

theorem getChromiumVersion_deterministic_witness:
  "fst (getChromiumVersion
          (example_host (Inr [\<lparr> release_chrome = ''116.0.5845.0'', release_version = ''26.0.0'' \<rparr>])
             [] ''linux'') (Some ''26.0.0'') 0)
     = Inr (Str ''116.0.5845.0'')
   \<and> fst (getChromiumVersion
          (example_host (Inr [\<lparr> release_chrome = ''116.0.5845.0'', release_version = ''26.0.0'' \<rparr>])
             [] ''linux'') (Some ''26.0.0'') 7)
     = Inr (Str ''116.0.5845.0'')"
proof -
  let ?feed = "[\<lparr> release_chrome = ''116.0.5845.0'', release_version = ''26.0.0'' \<rparr>]"
  let ?H = "example_host (Inr ?feed) [] ''linux''"
  have f0: "fetch ?H feedUrl 0 = (Inr (), 1)" and j0: "json ?H () 1 = (Inr ?feed, 2)"
    and f7: "fetch ?H feedUrl 7 = (Inr (), 8)" and j7: "json ?H () 8 = (Inr ?feed, 9)"
    by (simp_all add: example_host_def)
  have s: "Array_sort (compareReleases ?H) ?feed = Inr ?feed" by simp
  have m: "get_property (buildVersionMap ?feed) (toString (Some ''26.0.0'')) = Str ''116.0.5845.0''"
    by (simp add: get_property_def buildVersionMap_def set_property_def toString_def)
  note d = getChromiumVersion_deterministic [OF f0 j0 f7 j7, of "Some ''26.0.0''"]
  have a: "fst (getChromiumVersion ?H (Some ''26.0.0'') 0) = Inr (Str ''116.0.5845.0'')"
    using d [THEN conjunct2] by (simp only: s m sum.case)
  have b: "fst (getChromiumVersion ?H (Some ''26.0.0'') 7)
             = fst (getChromiumVersion ?H (Some ''26.0.0'') 0)"
    using d [THEN conjunct1] by (rule sym)
  show ?thesis unfolding b using a by simp
qed

text \<open>
  Claim C8. The claim says that a version absent from the resolved map gives
  \<^verbatim>\<open>undefined\<close>. Both maps are plain objects read with \<^verbatim>\<open>map[electronVersion]\<close>, so a
  key that names a property of \<^verbatim>\<open>Object.prototype\<close> gives the inherited value: for
  \<^verbatim>\<open>constructor\<close>, absent from the feed and from the table, the code returns the
  inherited property, not \<^verbatim>\<open>undefined\<close>, on the remote path and on the fallback path.
\<close>

theorem getChromiumVersion_inherited_property:
  "''constructor'' \<notin> release_version `
       set [\<lparr> release_chrome = ''116.0.5845.0'', release_version = ''26.0.0'' \<rparr>]
   \<and> getChromiumVersion
        (example_host (Inr [\<lparr> release_chrome = ''116.0.5845.0'', release_version = ''26.0.0'' \<rparr>])
           [] ''linux'') (Some ''constructor'') 0
       = (Inr (Inherited ''constructor''),
          [Log Debug [Text ''Updating Electron - Chromium version map...''],
           Fetch feedUrl None, Json None],
          2)
   \<and> fullVersions (example_host (Inl ''ENOTFOUND'') [] ''linux'') ''constructor'' = None
   \<and> getChromiumVersion (example_host (Inl ''ENOTFOUND'') [] ''linux'') (Some ''constructor'') 0
       = (Inr (Inherited ''constructor''),
          [Log Debug [Text ''Updating Electron - Chromium version map...''],
           Fetch feedUrl (Some ''ENOTFOUND''),
           Log Debug [Text ''Map update failed.'']],
          1)"
proof -
  let ?feed = "[\<lparr> release_chrome = ''116.0.5845.0'', release_version = ''26.0.0'' \<rparr>]"
  let ?H = "example_host (Inr ?feed) [] ''linux''"
  let ?F = "example_host (Inl ''ENOTFOUND'') [] ''linux''"
  have f0: "fetch ?H feedUrl 0 = (Inr (), 1)" and j0: "json ?H () 1 = (Inr ?feed, 2)"
    by (simp_all add: example_host_def)
  have s: "Array_sort (compareReleases ?H) ?feed = Inr ?feed" by simp
  have m: "get_property (buildVersionMap ?feed) (toString (Some ''constructor''))
             = Inherited ''constructor''"
    by (simp add: get_property_def buildVersionMap_def set_property_def toString_def
        Object_prototype_def)
  have 1: "getChromiumVersion ?H (Some ''constructor'') 0
       = (Inr (Inherited ''constructor''),
          [Log Debug [Text ''Updating Electron - Chromium version map...''],
           Fetch feedUrl None, Json None], 2)"
    using getChromiumVersion_remote [OF f0 j0 s, of "Some ''constructor''"] m by simp
  have f: "fetch ?F feedUrl 0 = (Inl ''ENOTFOUND'', 1)"
    by (simp add: example_host_def)
  have n: "fullVersions ?F ''constructor'' = None" by (simp add: example_host_def)
  then have "get_property (fullVersions ?F) (toString (Some ''constructor''))
               = Inherited ''constructor''"
    by (simp add: get_property_def toString_def Object_prototype_def)
  with getChromiumVersion_fetch_fails [OF f, of "Some ''constructor''"]
  have 2: "getChromiumVersion ?F (Some ''constructor'') 0
       = (Inr (Inherited ''constructor''),
          [Log Debug [Text ''Updating Electron - Chromium version map...''],
           Fetch feedUrl (Some ''ENOTFOUND''),
           Log Debug [Text ''Map update failed.'']], 1)"
    by simp
  from 1 2 n show ?thesis by simp
qed

text \<open>
  For every other absent key the result is \<^verbatim>\<open>undefined\<close>, and no input makes
  \<^verbatim>\<open>getChromiumVersion\<close> throw (\<open>getChromiumVersion_never_throws\<close>).
\<close>

lemma getChromiumVersion_absent_remote:
  assumes "fetch host feedUrl w = (Inr body, w1)" and "json host body w1 = (Inr feed, w')"
    and "Array_sort (compareReleases host) feed = Inr sortedVersions"
    and "toString electronVersion \<notin> release_version ` set feed"
  shows "fst (getChromiumVersion host electronVersion w) =
           Inr (if toString electronVersion \<in> set Object_prototype
                then Inherited (toString electronVersion) else Undefined)"
proof -
  have "set sortedVersions = set feed" using assms(3) by (rule Array_sort_set)
  with assms(4) have "buildVersionMap sortedVersions (toString electronVersion) = None"
    by (simp add: buildVersionMap_absent)
  with assms(1,2,3) show ?thesis
    by (simp add: getChromiumVersion_remote get_property_def)
qed

lemma getChromiumVersion_absent_fallback:
  assumes "fetch host feedUrl w = (Inl e, w')"
    and "fullVersions host (toString electronVersion) = None"
  shows "fst (getChromiumVersion host electronVersion w) =
           Inr (if toString electronVersion \<in> set Object_prototype
                then Inherited (toString electronVersion) else Undefined)"
  using assms by (simp add: getChromiumVersion_fetch_fails get_property_def)

end
